theory Spec2Isabelle
  imports Complex_Main "HOL-Library.AList"
begin

section \<open>CFDRenderer: the simulation core of \<open>src/CFD/Simulator.cpp\<close>\<close>

text \<open>
  The simulator advances particles (spheres) and oriented rigid boxes under named global
  forces and torques. This theory embeds \<open>Simulator.cpp\<close> function by function.

  Conventions of the embedding:
  \<^item> C++ \<open>float\<close>/\<open>double\<close> values are idealised as \<open>real\<close>: no rounding, no infinities,
    no NaN. Every statement about numbers below is a statement of exact arithmetic.
  \<^item> The vector, quaternion and matrix operations are those of the glm library
    (\<open>glm::vec3\<close>, \<open>glm::quat\<close>, \<open>glm::mat3\<close>), written out component by component.
  \<^item> The registries \<open>g_forces_\<close> and \<open>g_torques_\<close> are keyed containers with unique keys;
    they are association lists whose list order stands for the iteration order of the
    container. \<open>operator[]\<close>-assignment is \<open>AList.update\<close>, \<open>find\<close> is \<open>map_of\<close>,
    \<open>erase\<close> of the found entry is \<open>AList.delete\<close>.
  \<^item> Member names drop the trailing underscore of the source (\<open>g_forces_\<close> is
    \<open>g_forces\<close>), which Isabelle identifiers cannot end with.
  \<^item> Pointers to spheres and boxes are indices into \<open>spheres_\<close> and \<open>boxes_\<close>.
  \<^item> The loop counter of \<open>handle_collisions\<close> is an \<open>int\<close> that stays between 0 and 30;
    the debug counter \<open>cnt\<close> of \<open>integrate_spheres\<close> is a \<open>nat\<close> (its wrap-around
    as a \<open>size_t\<close> is not modelled).
  \<^item> Calls into collaborators outside \<open>Simulator.cpp\<close> (the rendering engine, the
    sphere collision solver, the impulse solver, the reactphysics3d world) and writes to
    \<open>std::cout\<close>/\<open>std::cerr\<close> are recorded as a list of events, in program order.
\<close>

subsection \<open>glm vectors\<close>

datatype vec3 = Vec3 (vx: real) (vy: real) (vz: real)

instantiation vec3 :: ab_group_add
begin

definition zero_vec3 :: vec3 where
  "zero_vec3 = Vec3 0 0 0"

definition plus_vec3 :: "vec3 \<Rightarrow> vec3 \<Rightarrow> vec3" where
  "plus_vec3 a b = Vec3 (vx a + vx b) (vy a + vy b) (vz a + vz b)"

definition uminus_vec3 :: "vec3 \<Rightarrow> vec3" where
  "uminus_vec3 a = Vec3 (- vx a) (- vy a) (- vz a)"

definition minus_vec3 :: "vec3 \<Rightarrow> vec3 \<Rightarrow> vec3" where
  "minus_vec3 a b = Vec3 (vx a - vx b) (vy a - vy b) (vz a - vz b)"

instance
  by standard
    (simp_all add: zero_vec3_def plus_vec3_def uminus_vec3_def minus_vec3_def vec3.expand)

end

text \<open>\<open>s * v\<close>, \<open>v * s\<close> and \<open>v / s\<close> for a scalar \<open>s\<close>.\<close>

definition smul :: "real \<Rightarrow> vec3 \<Rightarrow> vec3" where
  "smul s v = Vec3 (s * vx v) (s * vy v) (s * vz v)"

definition vmuls :: "vec3 \<Rightarrow> real \<Rightarrow> vec3" where
  "vmuls v s = Vec3 (vx v * s) (vy v * s) (vz v * s)"

definition vdivs :: "vec3 \<Rightarrow> real \<Rightarrow> vec3" where
  "vdivs v s = Vec3 (vx v / s) (vy v / s) (vz v / s)"

subsection \<open>glm quaternions and matrices\<close>

text \<open>\<open>glm::quat\<close> with components \<open>w, x, y, z\<close>; \<open>quat_sv s v\<close> is \<open>glm::quat(s, v)\<close>.\<close>

datatype quat = Quat (qw: real) (qx: real) (qy: real) (qz: real)

definition quat_sv :: "real \<Rightarrow> vec3 \<Rightarrow> quat" where
  "quat_sv s v = Quat s (vx v) (vy v) (vz v)"

definition quat_add :: "quat \<Rightarrow> quat \<Rightarrow> quat" where
  "quat_add p q = Quat (qw p + qw q) (qx p + qx q) (qy p + qy q) (qz p + qz q)"

definition quat_mul :: "quat \<Rightarrow> quat \<Rightarrow> quat" where
  "quat_mul p q = Quat
     (qw p * qw q - qx p * qx q - qy p * qy q - qz p * qz q)
     (qw p * qx q + qx p * qw q + qy p * qz q - qz p * qy q)
     (qw p * qy q + qy p * qw q + qz p * qx q - qx p * qz q)
     (qw p * qz q + qz p * qw q + qx p * qy q - qy p * qx q)"

definition smul_quat :: "real \<Rightarrow> quat \<Rightarrow> quat" where
  "smul_quat s q = Quat (s * qw q) (s * qx q) (s * qy q) (s * qz q)"

definition quat_muls :: "quat \<Rightarrow> real \<Rightarrow> quat" where
  "quat_muls q s = Quat (qw q * s) (qx q * s) (qy q * s) (qz q * s)"

definition quat_length :: "quat \<Rightarrow> real" where
  "quat_length q = sqrt (qw q * qw q + qx q * qx q + qy q * qy q + qz q * qz q)"

text \<open>
  \<open>glm::normalize\<close> on quaternions: a quaternion of length \<open>0\<close> (or less) is replaced
  by the identity rotation, every other one is scaled by the inverse of its length.
  This is the function over exact numbers. Over \<open>float\<close> the two differ where the sum of
  squares overflows: the length is then infinite, its inverse is \<open>0\<close>, and the source
  returns the quaternion \<open>(0, 0, 0, 0)\<close>, where the definition below returns one of
  length \<open>1\<close>. Nothing in this theory is claimed about the length of an orientation in
  the \<open>float\<close> program.
\<close>

definition normalize :: "quat \<Rightarrow> quat" where
  "normalize q =
     (let len = quat_length q in
      if len \<le> 0 then Quat 1 0 0 0
      else let oneOverLen = 1 / len in
        Quat (qw q * oneOverLen) (qx q * oneOverLen) (qy q * oneOverLen) (qz q * oneOverLen))"

text \<open>\<open>glm::mat3\<close> is stored by columns.\<close>

datatype mat3 = Mat3 (col0: vec3) (col1: vec3) (col2: vec3)

definition toMat3 :: "quat \<Rightarrow> mat3" where
  "toMat3 q =
     (let qxx = qx q * qx q; qyy = qy q * qy q; qzz = qz q * qz q;
          qxz = qx q * qz q; qxy = qx q * qy q; qyz = qy q * qz q;
          qwx = qw q * qx q; qwy = qw q * qy q; qwz = qw q * qz q
      in Mat3
        (Vec3 (1 - 2 * (qyy + qzz)) (2 * (qxy + qwz)) (2 * (qxz - qwy)))
        (Vec3 (2 * (qxy - qwz)) (1 - 2 * (qxx + qzz)) (2 * (qyz + qwx)))
        (Vec3 (2 * (qxz + qwy)) (2 * (qyz - qwx)) (1 - 2 * (qxx + qyy))))"

definition mat_vec :: "mat3 \<Rightarrow> vec3 \<Rightarrow> vec3" where
  "mat_vec m v = Vec3
     (vx (col0 m) * vx v + vx (col1 m) * vy v + vx (col2 m) * vz v)
     (vy (col0 m) * vx v + vy (col1 m) * vy v + vy (col2 m) * vz v)
     (vz (col0 m) * vx v + vz (col1 m) * vy v + vz (col2 m) * vz v)"

definition mat_mul :: "mat3 \<Rightarrow> mat3 \<Rightarrow> mat3" where
  "mat_mul a b = Mat3 (mat_vec a (col0 b)) (mat_vec a (col1 b)) (mat_vec a (col2 b))"

definition transpose3 :: "mat3 \<Rightarrow> mat3" where
  "transpose3 m = Mat3
     (Vec3 (vx (col0 m)) (vx (col1 m)) (vx (col2 m)))
     (Vec3 (vy (col0 m)) (vy (col1 m)) (vy (col2 m)))
     (Vec3 (vz (col0 m)) (vz (col1 m)) (vz (col2 m)))"

subsection \<open>Events\<close>

text \<open>
  One constructor per call that leaves \<open>Simulator.cpp\<close> and per line written to a stream.
  Numbers written to \<open>std::cout\<close> are kept as numbers. \<open>Call_integrate_spheres\<close> and
  \<open>Call_integrate_boxes\<close> mark the two calls made by \<open>Simulator::integrate\<close>.
\<close>

datatype event =
    Draw
  | SphereCollisions
  | SolverClear
  | TestCollision
  | Solve
  | Cout_solved int
  | Cerr string
  | Call_integrate_spheres real
  | Call_integrate_boxes real
  | Cout_prev_pos real vec3
  | Cout_curr_pos vec3
  | SetTransform nat vec3 quat
  | CreateCollisionBody nat vec3 quat
  | CreateBoxShape vec3
  | AddCollider nat
  | DestroyCollisionBody nat
  | DestroyPhysicsWorld
  | PrintFps

subsection \<open>The simulator state\<close>

text \<open>
  The members of \<open>Sphere\<close> and \<open>Box\<close> that \<open>Simulator.cpp\<close> reads or writes. A
  \<open>CollisionBody\<close> is the object behind a \<open>reactphysics3d::CollisionBody *\<close>: its
  identity, its user data (the index of the box it was created for) and the transform
  last given to it.
\<close>

record Sphere =
  pos :: vec3
  vel :: vec3
  mass :: real
  colliders :: "nat list"

record Box =
  color :: vec3
  center :: vec3
  dims :: vec3
  vel :: vec3
  inv_mass :: real
  P :: vec3
  L :: vec3
  orientation :: quat
  IBodyInv :: mat3
  IInv :: mat3
  angular_vel :: vec3

record CollisionBody =
  body_id :: nat
  userData :: nat
  transform :: "vec3 \<times> quat"

type_synonym registry = "(string \<times> vec3) list"

text \<open>
  \<open>integrate_init\<close>, \<open>lowSphere\<close> and \<open>cnt\<close> are the function-local statics of
  \<open>integrate\<close> and \<open>integrate_spheres\<close>. \<open>ext\<close> is the state of the collaborators
  (engine, sphere collision solver, impulse solver, collision world), of which
  \<open>Simulator.cpp\<close> knows nothing.
\<close>

record 'a Simulator =
  base_h :: real
  damping :: real
  spheres :: "Sphere list"
  boxes :: "Box list"
  bodies :: "(nat \<times> CollisionBody) list"
  g_forces :: registry
  g_torques :: registry
  last_time :: real
  integrate_init :: bool
  lowSphere :: "nat option"
  cnt :: nat
  ext :: 'a

text \<open>
  The collaborators, as functions of the state they can reach. The sphere collision
  solver is handed \<open>spheres_\<close>; the engine (through the key callback), the impulse solver
  (constructed with \<open>this\<close>) and the collision query (which calls back into the impulse
  solver) can reach the whole simulator.
\<close>

record 'a collaborators =
  draw :: "'a Simulator \<Rightarrow> 'a Simulator"
  col_handle_collisions :: "'a \<Rightarrow> Sphere list \<Rightarrow> 'a \<times> Sphere list"
  clear :: "'a Simulator \<Rightarrow> 'a Simulator"
  testCollision :: "'a Simulator \<Rightarrow> 'a Simulator"
  has_contacts :: "'a Simulator \<Rightarrow> bool"
  solve :: "'a Simulator \<Rightarrow> 'a Simulator"
  had_collisions :: "'a Simulator \<Rightarrow> bool"

text \<open>
  The state the constructor leaves, with the statics at their initial values.
  \<open>last_time_\<close> has no initialiser in the constructor; \<open>integrate\<close> writes it before it
  reads it.
\<close>

definition Simulator_new :: "'a \<Rightarrow> 'a Simulator" where
  "Simulator_new e =
     \<lparr>base_h = 3 / 100, damping = 9 / 100, spheres = [], boxes = [], bodies = [],
      g_forces = [], g_torques = [], last_time = 0, integrate_init = True,
      lowSphere = None, cnt = 0, ext = e\<rparr>"

subsection \<open>The force and torque registries\<close>

definition add_global_force :: "string \<Rightarrow> vec3 \<Rightarrow> 'a Simulator \<Rightarrow> 'a Simulator" where
  "add_global_force name f sim = sim\<lparr>g_forces := AList.update name f (g_forces sim)\<rparr>"

definition add_global_torque :: "string \<Rightarrow> vec3 \<Rightarrow> 'a Simulator \<Rightarrow> 'a Simulator" where
  "add_global_torque name f sim = sim\<lparr>g_torques := AList.update name f (g_torques sim)\<rparr>"

definition remove_global_force :: "string \<Rightarrow> 'a Simulator \<Rightarrow> 'a Simulator \<times> event list" where
  "remove_global_force name sim =
     (case map_of (g_forces sim) name of
        None \<Rightarrow> (sim, [Cerr (''No force named '' @ name @ [CHR 0x0A])])
      | Some _ \<Rightarrow> (sim\<lparr>g_forces := AList.delete name (g_forces sim)\<rparr>, []))"

definition remove_global_torque :: "string \<Rightarrow> 'a Simulator \<Rightarrow> 'a Simulator \<times> event list" where
  "remove_global_torque name sim =
     (case map_of (g_torques sim) name of
        None \<Rightarrow> (sim, [Cerr (''No torque named '' @ name @ [CHR 0x0A])])
      | Some _ \<Rightarrow> (sim\<lparr>g_torques := AList.delete name (g_torques sim)\<rparr>, []))"

text \<open>
  The net force of a registry, as the specification's \<open>accumulate()\<close> describes it: the
  sum of all current entries.
\<close>

definition accumulate :: "registry \<Rightarrow> vec3" where
  "accumulate reg = sum_list (map snd reg)"

subsection \<open>\<open>Simulator::handle_collisions\<close>\<close>

text \<open>
  The \<open>do ... while\<close> loop over the impulse solver. The function returns the iteration
  counter, the state and the events so far; a loop that never leaves is \<open>None\<close>.
\<close>

partial_function (option) solver_loop ::
  "'a collaborators \<Rightarrow> int \<Rightarrow> 'a Simulator \<Rightarrow> event list \<Rightarrow> (int \<times> 'a Simulator \<times> event list) option"
where
  "solver_loop co solver_iteration_counter sim evs =
     (if solver_iteration_counter = 30 then Some (solver_iteration_counter, sim, evs)
      else
        let sim1 = clear co sim;
            sim2 = testCollision co sim1;
            evs2 = evs @ [SolverClear, TestCollision]
        in
          if has_contacts co sim2
          then
            (let sim3 = solve co sim2 in
             if had_collisions co sim3
             then solver_loop co (solver_iteration_counter + 1) sim3 (evs2 @ [Solve])
             else Some (solver_iteration_counter + 1, sim3, evs2 @ [Solve]))
          else
            (if had_collisions co sim2
             then solver_loop co solver_iteration_counter sim2 evs2
             else Some (solver_iteration_counter, sim2, evs2)))"

definition handle_collisions ::
  "'a collaborators \<Rightarrow> 'a Simulator \<Rightarrow> ('a Simulator \<times> event list) option"
where
  "handle_collisions co sim =
     (let (e1, sph) = col_handle_collisions co (ext sim) (spheres sim);
          sim1 = sim\<lparr>spheres := sph, ext := e1\<rparr>;
          sim2 = sim1\<lparr>boxes := map (\<lambda>box. box\<lparr>color := Vec3 1 (2 / 10) (11 / 100)\<rparr>) (boxes sim1)\<rparr>
      in case solver_loop co 0 sim2 [SphereCollisions] of
           None \<Rightarrow> None
         | Some (solver_iteration_counter, sim3, evs) \<Rightarrow>
             Some (sim3,
               evs @ (if solver_iteration_counter > 0
                      then [Cout_solved solver_iteration_counter] else [])))"

subsection \<open>\<open>Simulator::~Simulator\<close> and the registration of bodies in \<open>Simulator::init\<close>\<close>

definition Simulator_destructor :: "'a Simulator \<Rightarrow> event list" where
  "Simulator_destructor sim =
     map (\<lambda>body_pair. DestroyCollisionBody (body_id (snd body_pair))) (bodies sim)
     @ [DestroyPhysicsWorld]"

text \<open>\<open>bodies_.emplace(i, body)\<close> inserts only where the key is free.\<close>

definition emplace :: "nat \<Rightarrow> CollisionBody \<Rightarrow> (nat \<times> CollisionBody) list \<Rightarrow> (nat \<times> CollisionBody) list" where
  "emplace i body bs = (case map_of bs i of None \<Rightarrow> bs @ [(i, body)] | Some _ \<Rightarrow> bs)"

text \<open>
  The last loop of \<open>init\<close>: one collision body per box of \<open>boxes_\<close>. \<open>new_body i\<close> is the
  identity of the body that \<open>createCollisionBody\<close> returns in round \<open>i\<close>.
\<close>

definition init_body :: "(nat \<Rightarrow> nat) \<Rightarrow> nat \<Rightarrow> 'a Simulator \<times> event list \<Rightarrow> 'a Simulator \<times> event list" where
  "init_body new_body i st =
     (let sim = fst st;
          box = boxes sim ! i;
          body = \<lparr>body_id = new_body i, userData = i, transform = (center box, orientation box)\<rparr>;
          halfExtents = Vec3 (vx (dims box) * (5 / 10)) (vy (dims box) * (5 / 10)) (vz (dims box) * (5 / 10))
      in (sim\<lparr>bodies := emplace i body (bodies sim)\<rparr>,
          snd st @ [CreateCollisionBody (new_body i) (center box) (orientation box),
                    CreateBoxShape halfExtents, AddCollider (new_body i)]))"

definition init_bodies :: "(nat \<Rightarrow> nat) \<Rightarrow> 'a Simulator \<Rightarrow> 'a Simulator \<times> event list" where
  "init_bodies new_body sim = fold (init_body new_body) [0..<length (boxes sim)] (sim, [])"

subsection \<open>\<open>Simulator::integrate_spheres\<close>\<close>

text \<open>
  One round of the loop, for the sphere at index \<open>i\<close>. The pair \<open>(low, n)\<close> holds the
  statics \<open>lowSphere\<close> and \<open>cnt\<close>.
\<close>

definition integrate_sphere ::
  "real \<Rightarrow> registry \<Rightarrow> real \<Rightarrow> nat \<Rightarrow> nat option \<times> nat \<Rightarrow> Sphere
     \<Rightarrow> Sphere \<times> (nat option \<times> nat) \<times> event list"
where
  "integrate_sphere h forces damp i st sphere =
     (let acc = fold (\<lambda>f acc. acc + vdivs (snd f) (mass sphere)) forces 0;
          damping_force = smul (- damp) (Sphere.vel sphere);
          acc = acc + vdivs damping_force (mass sphere);
          low = (if fst st = None \<and> vy (pos sphere) < - (25 / 10) then Some i else fst st);
          n = (if low = Some i then snd st + 1 else snd st);
          ev1 = (if low = Some i \<and> snd st mod 100 = 0 then [Cout_prev_pos h (pos sphere)] else []);
          vel' = Sphere.vel sphere + smul h acc;
          pos' = pos sphere + smul h vel';
          ev2 = (if low = Some i \<and> n mod 100 = 0 then [Cout_curr_pos pos'] else [])
      in (sphere\<lparr>pos := pos', Sphere.vel := vel', colliders := []\<rparr>, (low, n), ev1 @ ev2))"

fun integrate_spheres_loop ::
  "real \<Rightarrow> registry \<Rightarrow> real \<Rightarrow> nat \<Rightarrow> nat option \<times> nat \<Rightarrow> Sphere list
     \<Rightarrow> Sphere list \<times> (nat option \<times> nat) \<times> event list"
where
  "integrate_spheres_loop h forces damp i st [] = ([], st, [])"
| "integrate_spheres_loop h forces damp i st (sphere # rest) =
     (case integrate_sphere h forces damp i st sphere of
        (sphere', st', ev) \<Rightarrow>
          (case integrate_spheres_loop h forces damp (Suc i) st' rest of
             (rest', st'', evs) \<Rightarrow> (sphere' # rest', st'', ev @ evs)))"

definition integrate_spheres :: "real \<Rightarrow> 'a Simulator \<Rightarrow> 'a Simulator \<times> event list" where
  "integrate_spheres h sim =
     (case integrate_spheres_loop h (g_forces sim) (damping sim) 0 (lowSphere sim, cnt sim)
             (spheres sim) of
        (sph, st, evs) \<Rightarrow> (sim\<lparr>spheres := sph, lowSphere := fst st, cnt := snd st\<rparr>, evs))"

subsection \<open>\<open>Simulator::integrate_boxes\<close>\<close>

definition integrate_box :: "real \<Rightarrow> real \<Rightarrow> registry \<Rightarrow> registry \<Rightarrow> Box \<Rightarrow> Box" where
  "integrate_box h damp forces torques box =
     (let acc = fold (\<lambda>f acc. acc + vmuls (snd f) (inv_mass box)) forces 0;
          torque = fold (\<lambda>f torque. torque + vmuls (snd f) (inv_mass box)) torques 0;
          damping_force = smul (- damp) (Box.vel box);
          acc = acc + vmuls damping_force (inv_mass box);
          angular_damping = 1 / (1 + damp);
          center' = center box + smul h (Box.vel box);
          P_dot = (if inv_mass box > 1 / 10000 then vdivs acc (inv_mass box) else 0);
          P' = P box + smul h P_dot;
          vel' = vmuls P' (inv_mass box);
          R = toMat3 (orientation box);
          IInv' = mat_mul (mat_mul R (IBodyInv box)) (transpose3 R);
          L_dot = torque;
          L' = L box + vmuls (vmuls L_dot h) angular_damping;
          angular_vel' = mat_vec IInv' L';
          orientation' = quat_add (orientation box)
             (quat_muls (quat_mul (smul_quat (5 / 10) (quat_sv 0 angular_vel')) (orientation box)) h)
      in box\<lparr>center := center', Box.vel := vel', P := P', L := L', IInv := IInv',
              angular_vel := angular_vel', orientation := normalize orientation'\<rparr>)"

text \<open>
  The second loop of \<open>integrate_boxes\<close> hands every body the transform of the box its user
  data points to. A user data that is not a box of \<open>boxes_\<close> is undefined behaviour in the
  source and \<open>None\<close> here.
\<close>

fun set_transforms ::
  "Box list \<Rightarrow> (nat \<times> CollisionBody) list \<Rightarrow> ((nat \<times> CollisionBody) list \<times> event list) option"
where
  "set_transforms bxs [] = Some ([], [])"
| "set_transforms bxs (body_pair # rest) =
     (let body = snd body_pair in
      if userData body < length bxs
      then
        (let box = bxs ! userData body in
         case set_transforms bxs rest of
           None \<Rightarrow> None
         | Some (rest', evs) \<Rightarrow>
             Some ((fst body_pair, body\<lparr>transform := (center box, orientation box)\<rparr>) # rest',
                   SetTransform (body_id body) (center box) (orientation box) # evs))
      else None)"

definition integrate_boxes :: "real \<Rightarrow> 'a Simulator \<Rightarrow> ('a Simulator \<times> event list) option" where
  "integrate_boxes h sim =
     (let bxs = map (integrate_box h (damping sim) (g_forces sim) (g_torques sim)) (boxes sim)
      in case set_transforms bxs (bodies sim) of
           None \<Rightarrow> None
         | Some (bds, evs) \<Rightarrow> Some (sim\<lparr>boxes := bxs, bodies := bds\<rparr>, evs))"

subsection \<open>\<open>Simulator::integrate\<close> and \<open>Simulator::run\<close>\<close>

text \<open>\<open>curr_time\<close> is the value \<open>glfwGetTime()\<close> returns in this call.\<close>

definition integrate :: "real \<Rightarrow> 'a Simulator \<Rightarrow> ('a Simulator \<times> event list) option" where
  "integrate curr_time sim =
     (let sim1 = (if integrate_init sim
                  then sim\<lparr>integrate_init := False, last_time := curr_time\<rparr> else sim);
          delta = curr_time - last_time sim1;
          sim2 = sim1\<lparr>last_time := curr_time\<rparr>;
          h = base_h sim2 * (13333 / 100) * delta
      in case integrate_spheres h sim2 of
           (sim3, evs) \<Rightarrow>
             (case integrate_boxes h sim3 of
                None \<Rightarrow> None
              | Some (sim4, evs') \<Rightarrow>
                  Some (sim4, [Call_integrate_spheres h] @ evs @ [Call_integrate_boxes h] @ evs')))"

text \<open>One round of the loop of \<open>run\<close>.\<close>

definition frame :: "'a collaborators \<Rightarrow> real \<Rightarrow> 'a Simulator \<Rightarrow> ('a Simulator \<times> event list) option" where
  "frame co curr_time sim =
     (case handle_collisions co (draw co sim) of
        None \<Rightarrow> None
      | Some (sim1, evs1) \<Rightarrow>
          (case integrate curr_time sim1 of
             None \<Rightarrow> None
           | Some (sim2, evs2) \<Rightarrow> Some (sim2, [Draw] @ evs1 @ evs2 @ [PrintFps])))"


subsection \<open>Auxiliary notions for the properties\<close>

text \<open>
  The particle update as the specification writes it (section 4.4): the acceleration is
  the sum of the active forces divided by the mass, minus damping coefficient times
  velocity divided by the mass; the velocity is advanced by \<open>h\<close> times the acceleration;
  the position is advanced by \<open>h\<close> times the new velocity; the contact-partner list is
  cleared.
\<close>

definition sphere_update :: "real \<Rightarrow> registry \<Rightarrow> real \<Rightarrow> Sphere \<Rightarrow> Sphere" where
  "sphere_update h forces damping_coefficient sphere =
     (let acceleration = vdivs (accumulate forces) (mass sphere)
            - vdivs (smul damping_coefficient (Sphere.vel sphere)) (mass sphere);
          velocity = Sphere.vel sphere + smul h acceleration;
          position = pos sphere + smul h velocity
      in sphere\<lparr>pos := position, Sphere.vel := velocity, colliders := []\<rparr>)"





text \<open>Example data: a box without motion, and a scene of one sphere, two boxes, two bodies.\<close>

definition resting_box :: "vec3 \<Rightarrow> real \<Rightarrow> Box" where
  "resting_box c im =
     \<lparr>color = Vec3 0 0 0, center = c, dims = Vec3 1 1 1, vel = 0, inv_mass = im, P = 0, L = 0,
      orientation = Quat 1 0 0 0,
      IBodyInv = Mat3 (Vec3 1 0 0) (Vec3 0 1 0) (Vec3 0 0 1),
      IInv = Mat3 (Vec3 1 0 0) (Vec3 0 1 0) (Vec3 0 0 1),
      angular_vel = 0\<rparr>"

definition example_scene :: "unit Simulator" where
  "example_scene =
     (add_global_torque ''torque'' (Vec3 0 (5 / 10) 0)
       (add_global_force ''gravity'' (Vec3 0 (- 9 / 10) 0) (Simulator_new ())))
     \<lparr>spheres := [\<lparr>pos = Vec3 0 0 0, vel = Vec3 1 0 0, mass = 2, colliders = [0]\<rparr>],
      boxes := [(resting_box (Vec3 0 1 0) 1)\<lparr>orientation := Quat 3 0 4 0\<rparr>,
                resting_box (Vec3 0 (- 5) 0) 0],
      bodies := [(0, \<lparr>body_id = 10, userData = 0, transform = (Vec3 0 1 0, Quat 1 0 0 0)\<rparr>),
                 (1, \<lparr>body_id = 11, userData = 1, transform = (Vec3 0 (- 5) 0, Quat 1 0 0 0)\<rparr>)]\<rparr>"


subsection \<open>Auxiliary notions for the contact-resolution loop and the order of events\<close>

text \<open>
  The same \<open>do ... while\<close> loop, run for at most \<open>n\<close> rounds. The first component tells
  whether the loop has been left within these rounds; the others are the counter, the
  state and the events reached.
\<close>

fun solver_rounds ::
  "'a collaborators \<Rightarrow> nat \<Rightarrow> int \<Rightarrow> 'a Simulator \<Rightarrow> event list \<Rightarrow> bool \<times> int \<times> 'a Simulator \<times> event list"
where
  "solver_rounds co 0 solver_iteration_counter sim evs = (False, solver_iteration_counter, sim, evs)"
| "solver_rounds co (Suc n) solver_iteration_counter sim evs =
     (if solver_iteration_counter = 30 then (True, solver_iteration_counter, sim, evs)
      else
        let sim1 = clear co sim;
            sim2 = testCollision co sim1;
            evs2 = evs @ [SolverClear, TestCollision]
        in
          if has_contacts co sim2
          then
            (let sim3 = solve co sim2 in
             if had_collisions co sim3
             then solver_rounds co n (solver_iteration_counter + 1) sim3 (evs2 @ [Solve])
             else (True, solver_iteration_counter + 1, sim3, evs2 @ [Solve]))
          else
            (if had_collisions co sim2
             then solver_rounds co n solver_iteration_counter sim2 evs2
             else (True, solver_iteration_counter, sim2, evs2)))"

text \<open>
  One round of the loop body: the number it adds to the counter, the state and the events
  of the round.
\<close>

definition loop_round :: "'a collaborators \<Rightarrow> 'a Simulator \<Rightarrow> int \<times> 'a Simulator \<times> event list" where
  "loop_round co sim =
     (let sim2 = testCollision co (clear co sim) in
      if has_contacts co sim2 then (1, solve co sim2, [SolverClear, TestCollision, Solve])
      else (0, sim2, [SolverClear, TestCollision]))"

text \<open>
  The event sequences the loop can write: rounds \<open>SolverClear, TestCollision\<close>, each
  followed by \<open>Solve\<close> or not.
\<close>

fun loop_events :: "event list \<Rightarrow> bool" where
  "loop_events [] = True"
| "loop_events [e] = False"
| "loop_events (e1 # e2 # evs) =
     (e1 = SolverClear \<and> e2 = TestCollision \<and>
      (if evs \<noteq> [] \<and> hd evs = Solve then loop_events (tl evs) else loop_events evs))"

text \<open>
  The phases of a frame, as classes of events: detection is the particle pass and the box
  collision query, resolution is the impulse pass, integration is everything
  \<open>integrate\<close> calls or writes.
\<close>

definition is_detection :: "event \<Rightarrow> bool" where
  "is_detection e \<longleftrightarrow> e = SphereCollisions \<or> e = TestCollision"

definition is_resolution :: "event \<Rightarrow> bool" where
  "is_resolution e \<longleftrightarrow> e = Solve"

definition is_integration :: "event \<Rightarrow> bool" where
  "is_integration e =
     (case e of
        Call_integrate_spheres h \<Rightarrow> True
      | Call_integrate_boxes h \<Rightarrow> True
      | Cout_prev_pos h p \<Rightarrow> True
      | Cout_curr_pos p \<Rightarrow> True
      | SetTransform b c q \<Rightarrow> True
      | _ \<Rightarrow> False)"

fun precedes :: "(event \<Rightarrow> bool) \<Rightarrow> (event \<Rightarrow> bool) \<Rightarrow> event list \<Rightarrow> bool" where
  "precedes p q [] = True"
| "precedes p q (e # es) = ((if q e then list_all (\<lambda>x. \<not> p x) es else True) \<and> precedes p q es)"

text \<open>
  An example of collaborators. The state is a pair: the number of queries that will still
  find contacts, and whether the last query found some.
\<close>

definition counting_solver :: "(nat \<times> bool) collaborators" where
  "counting_solver =
     \<lparr>draw = (\<lambda>sim. sim),
      col_handle_collisions = (\<lambda>e sph. (e, sph)),
      clear = (\<lambda>sim. sim\<lparr>ext := (fst (ext sim), False)\<rparr>),
      testCollision = (\<lambda>sim. sim\<lparr>ext := (fst (ext sim), 0 < fst (ext sim))\<rparr>),
      has_contacts = (\<lambda>sim. snd (ext sim)),
      solve = (\<lambda>sim. sim\<lparr>ext := (fst (ext sim) - 1, snd (ext sim))\<rparr>),
      had_collisions = (\<lambda>sim. snd (ext sim))\<rparr>"


text \<open>Collaborators that never report contacts and whose \<open>had_collisions()\<close> is always true.\<close>

definition stuck_solver :: "unit collaborators" where
  "stuck_solver =
     \<lparr>draw = (\<lambda>sim. sim),
      col_handle_collisions = (\<lambda>e sph. (e, sph)),
      clear = (\<lambda>sim. sim),
      testCollision = (\<lambda>sim. sim),
      has_contacts = (\<lambda>sim. False),
      solve = (\<lambda>sim. sim),
      had_collisions = (\<lambda>sim. True)\<rparr>"


text \<open>The body that round \<open>i\<close> of the last loop of \<open>init\<close> registers under key \<open>i\<close>.\<close>

definition created_body :: "(nat \<Rightarrow> nat) \<Rightarrow> Box list \<Rightarrow> nat \<Rightarrow> nat \<times> CollisionBody" where
  "created_body new_body bxs i =
     (i, \<lparr>body_id = new_body i, userData = i,
          transform = (center (bxs ! i), orientation (bxs ! i))\<rparr>)"

section \<open>Properties\<close>

subsection \<open>The registries\<close>

lemma sum_list_update:
  "distinct (map fst al) \<Longrightarrow>
   sum_list (map snd (AList.update k v al)) = sum_list (map snd (AList.delete k al)) + (v::vec3)"
  by (induction al) (auto simp: add.assoc add.commute image_iff)

lemma filter_key_update:
  "distinct (map fst al) \<Longrightarrow> filter (\<lambda>e. fst e = k) (AList.update k v al) = [(k, v)]"
  by (induction al) (auto simp: image_iff filter_empty_conv)

lemma delete_update_absent:
  "map_of al k = None \<Longrightarrow> AList.delete k (AList.update k v al) = al"
  by (simp add: delete_update_same map_of_eq_None_iff)

lemma delete_as_filter: "AList.delete k al = filter (\<lambda>e. fst e \<noteq> k) al"
  by (induction al) auto

text \<open>
  C5. Adding a force twice under one name replaces: after \<open>add_global_force name v1\<close> and
  \<open>add_global_force name v2\<close> the registry is the one a single \<open>add_global_force name v2\<close>
  gives, it holds \<open>v2\<close> under \<open>name\<close> in exactly one entry, and the net force is the sum
  of the other entries plus \<open>v2\<close> (no \<open>v1\<close> in it). The registry's keys are unique, as
  they are in every state of the container.
\<close>

theorem add_global_force_twice_replaces:
  "distinct (map fst (g_forces sim)) \<Longrightarrow>
   (let sim' = add_global_force name v2 (add_global_force name v1 sim) in
    g_forces sim' = g_forces (add_global_force name v2 sim) \<and>
    map_of (g_forces sim') name = Some v2 \<and>
    filter (\<lambda>e. fst e = name) (g_forces sim') = [(name, v2)] \<and>
    accumulate (g_forces sim') = accumulate (AList.delete name (g_forces sim)) + v2)"
  by (simp add: add_global_force_def Let_def accumulate_def sum_list_update filter_key_update
      update_conv')

theorem add_global_force_twice_replaces_witness:
  "distinct (map fst (g_forces (add_global_force ''P-force'' (Vec3 1 0 0) (Simulator_new ())))) \<and>
   (let sim' = add_global_force ''g'' (Vec3 0 (- 9 / 10) 0)
        (add_global_force ''g'' (Vec3 1 2 3)
          (add_global_force ''P-force'' (Vec3 1 0 0) (Simulator_new ())))
    in map_of (g_forces sim') ''g'' = Some (Vec3 0 (- 9 / 10) 0) \<and>
       g_forces sim' = [(''P-force'', Vec3 1 0 0), (''g'', Vec3 0 (- 9 / 10) 0)] \<and>
       accumulate (g_forces sim') = Vec3 1 (- 9 / 10) 0)"
  using add_global_force_twice_replaces
    [of "add_global_force ''P-force'' (Vec3 1 0 0) (Simulator_new ())" "''g''"
        "Vec3 0 (- 9 / 10) 0" "Vec3 1 2 3"]
  by (simp add: add_global_force_def Simulator_new_def accumulate_def Let_def plus_vec3_def
      zero_vec3_def)

text \<open>
  C6, as stated: for every registry state, \<open>add_global_force "x" v\<close> followed by
  \<open>remove_global_force "x"\<close> leaves the net force as it was before the add. It fails
  where \<open>"x"\<close> is already registered: the add overwrites the old entry and the remove
  erases it, so the old contribution \<open>(1, 0, 0)\<close> is gone.
\<close>

theorem add_remove_existing_name_counterexample:
  "accumulate (g_forces (fst (remove_global_force ''x''
      (add_global_force ''x'' (Vec3 0 1 0)
        (add_global_force ''x'' (Vec3 1 0 0) (Simulator_new ()))))))
   \<noteq> accumulate (g_forces (add_global_force ''x'' (Vec3 1 0 0) (Simulator_new ())))"
  by (simp add: remove_global_force_def add_global_force_def Simulator_new_def accumulate_def
      zero_vec3_def plus_vec3_def)

text \<open>
  C6, amended: for every registry state in which \<open>name\<close> is not registered,
  \<open>add_global_force name v\<close> followed by \<open>remove_global_force name\<close> gives back the very
  same simulator state and writes nothing; in particular the net force is the one before
  the add.
\<close>

theorem add_remove_fresh_name_restores:
  "map_of (g_forces sim) name = None \<Longrightarrow>
   remove_global_force name (add_global_force name v sim) = (sim, []) \<and>
   accumulate (g_forces (fst (remove_global_force name (add_global_force name v sim))))
     = accumulate (g_forces sim)"
  by (simp add: remove_global_force_def add_global_force_def update_conv' delete_update_absent)

theorem add_remove_fresh_name_restores_witness:
  "map_of (g_forces (add_global_force ''gravity'' (Vec3 0 (- 9 / 10) 0) (Simulator_new ()))) ''x''
     = None \<and>
   accumulate (g_forces (fst (remove_global_force ''x'' (add_global_force ''x'' (Vec3 1 2 3)
      (add_global_force ''gravity'' (Vec3 0 (- 9 / 10) 0) (Simulator_new ()))))))
     = Vec3 0 (- 9 / 10) 0"
  using add_remove_fresh_name_restores
    [of "add_global_force ''gravity'' (Vec3 0 (- 9 / 10) 0) (Simulator_new ())" "''x''"
        "Vec3 1 2 3"]
  by (simp add: add_global_force_def Simulator_new_def accumulate_def plus_vec3_def
      zero_vec3_def)

text \<open>
  C7. \<open>remove_global_force\<close> on a name that is not registered writes the line
  \<open>No force named <name>\<close> to \<open>std::cerr\<close> and returns the state unchanged; on a
  registered name it writes nothing, changes no member but \<open>g_forces_\<close>, and the new
  registry is the old one without the entry of \<open>name\<close>: the other entries keep their
  values and their order. The same holds for \<open>remove_global_torque\<close> and \<open>g_torques_\<close>.
  Both functions are total: there is no failing branch.
\<close>

theorem remove_global_absent_or_present:
  "(map_of (g_forces sim) name = None \<longrightarrow>
      remove_global_force name sim = (sim, [Cerr (''No force named '' @ name @ [CHR 0x0A])])) \<and>
   (map_of (g_forces sim) name \<noteq> None \<longrightarrow>
      (\<exists>sim'. remove_global_force name sim = (sim', []) \<and>
         sim' = sim\<lparr>g_forces := g_forces sim'\<rparr> \<and>
         map_of (g_forces sim') = (map_of (g_forces sim))(name := None) \<and>
         g_forces sim' = filter (\<lambda>e. fst e \<noteq> name) (g_forces sim))) \<and>
   (map_of (g_torques sim) name = None \<longrightarrow>
      remove_global_torque name sim = (sim, [Cerr (''No torque named '' @ name @ [CHR 0x0A])])) \<and>
   (map_of (g_torques sim) name \<noteq> None \<longrightarrow>
      (\<exists>sim'. remove_global_torque name sim = (sim', []) \<and>
         sim' = sim\<lparr>g_torques := g_torques sim'\<rparr> \<and>
         map_of (g_torques sim') = (map_of (g_torques sim))(name := None) \<and>
         g_torques sim' = filter (\<lambda>e. fst e \<noteq> name) (g_torques sim)))"
  by (auto simp: remove_global_force_def remove_global_torque_def delete_conv'
      delete_as_filter [symmetric])

theorem remove_global_absent_or_present_witness:
  "(let sim = add_global_torque ''torque'' (Vec3 0 (5 / 10) 0)
        (add_global_force ''P-force'' (Vec3 1 (5 / 10) 0)
          (add_global_force ''gravity'' (Vec3 0 (- 9 / 10) 0) (Simulator_new ())))
    in map_of (g_forces sim) ''P-force'' \<noteq> None \<and>
       g_forces (fst (remove_global_force ''P-force'' sim)) = [(''gravity'', Vec3 0 (- 9 / 10) 0)] \<and>
       map_of (g_torques sim) ''P-force'' = None \<and>
       remove_global_torque ''P-force'' sim = (sim, [Cerr ''No torque named P-force\<newline>'']) \<and>
       map_of (g_forces sim) ''torque'' = None \<and>
       remove_global_force ''torque'' sim = (sim, [Cerr ''No force named torque\<newline>'']) \<and>
       map_of (g_torques sim) ''torque'' \<noteq> None \<and>
       g_torques (fst (remove_global_torque ''torque'' sim)) = [])"
  using
    remove_global_absent_or_present
      [of "add_global_torque ''torque'' (Vec3 0 (5 / 10) 0)
            (add_global_force ''P-force'' (Vec3 1 (5 / 10) 0)
              (add_global_force ''gravity'' (Vec3 0 (- 9 / 10) 0) (Simulator_new ())))"
          "''P-force''"]
    remove_global_absent_or_present
      [of "add_global_torque ''torque'' (Vec3 0 (5 / 10) 0)
            (add_global_force ''P-force'' (Vec3 1 (5 / 10) 0)
              (add_global_force ''gravity'' (Vec3 0 (- 9 / 10) 0) (Simulator_new ())))"
          "''torque''"]
  by (simp add: add_global_force_def add_global_torque_def Simulator_new_def Let_def
      remove_global_force_def remove_global_torque_def)

subsection \<open>Integration of spheres and boxes\<close>





lemma fold_vdivs:
  "fold (\<lambda>f acc. acc + vdivs (snd f) m) reg a = a + vdivs (sum_list (map snd reg)) m"
proof (induction reg arbitrary: a)
  case Nil
  show ?case by (simp add: vdivs_def zero_vec3_def plus_vec3_def)
next
  case (Cons f reg)
  show ?case
    by (simp add: Cons.IH) (simp add: vdivs_def plus_vec3_def add_divide_distrib)
qed




lemma integrate_sphere_update:
  "fst (integrate_sphere h forces damp i st sphere) = sphere_update h forces damp sphere"
  by (simp add: integrate_sphere_def sphere_update_def Let_def fold_vdivs accumulate_def)
     (simp add: vdivs_def smul_def plus_vec3_def minus_vec3_def zero_vec3_def)

lemma integrate_spheres_loop_map:
  "fst (integrate_spheres_loop h forces damp i st sphs) = map (sphere_update h forces damp) sphs"
proof (induction sphs arbitrary: i st)
  case Nil
  show ?case by simp
next
  case (Cons sphere rest)
  obtain sphere' st' ev where a: "integrate_sphere h forces damp i st sphere = (sphere', st', ev)"
    by (cases "integrate_sphere h forces damp i st sphere") auto
  obtain rest' st'' evs where
    b: "integrate_spheres_loop h forces damp (Suc i) st' rest = (rest', st'', evs)"
    by (cases "integrate_spheres_loop h forces damp (Suc i) st' rest") auto
  have "sphere' = sphere_update h forces damp sphere"
    using integrate_sphere_update [of h forces damp i st sphere] a by simp
  moreover have "rest' = map (sphere_update h forces damp) rest"
    using Cons.IH [of "Suc i" st'] b by simp
  ultimately show ?case by (simp add: a b)
qed

lemma set_transforms_Some:
  "\<forall>bp\<in>set bds. userData (snd bp) < length bxs \<Longrightarrow> \<exists>bds' evs. set_transforms bxs bds = Some (bds', evs)"
  by (induction bds) (auto simp: Let_def)



text \<open>
  C4. For particles of positive mass, \<open>integrate_spheres\<close> is the update of the
  specification, sphere by sphere: acceleration = (sum of the registered forces) / mass
  - damping * velocity / mass; then the velocity moves by \<open>h\<close> times the acceleration;
  then the position moves by \<open>h\<close> times the new velocity; and the contact-partner list
  is emptied. (The loop of the source adds up the quotients force / mass one by one;
  over the reals that is the quotient of the sum.)
\<close>

theorem integrate_spheres_semi_implicit:
  "\<forall>sphere\<in>set (spheres sim). 0 < mass sphere \<Longrightarrow>
   spheres (fst (integrate_spheres h sim))
     = map (sphere_update h (g_forces sim) (damping sim)) (spheres sim)"
  using integrate_spheres_loop_map
    [of h "g_forces sim" "damping sim" 0 "(lowSphere sim, cnt sim)" "spheres sim"]
  by (auto simp: integrate_spheres_def split: prod.splits)

theorem integrate_spheres_semi_implicit_witness:
  "list_all (\<lambda>sphere. 0 < mass sphere) (spheres example_scene) \<and>
   spheres (fst (integrate_spheres 1 example_scene))
     = [\<lparr>pos = Vec3 (955 / 1000) (- 45 / 100) 0, vel = Vec3 (955 / 1000) (- 45 / 100) 0,
         mass = 2, colliders = []\<rparr>]"
  using integrate_spheres_semi_implicit [of example_scene 1]
  by (simp add: example_scene_def add_global_force_def add_global_torque_def Simulator_new_def
      sphere_update_def accumulate_def Let_def vdivs_def smul_def plus_vec3_def minus_vec3_def
      zero_vec3_def)

text \<open>
  C10. A box whose inverse mass is at most \<open>0.0001\<close> keeps its linear momentum \<open>P\<close> in
  \<open>integrate_boxes\<close>, whatever the registries hold: the test \<open>inv_mass > .0001\<close> fails,
  \<open>P_dot\<close> stays zero and \<open>P += h * P_dot\<close> adds nothing.
\<close>

theorem low_inv_mass_keeps_momentum:
  "inv_mass box \<le> 1 / 10000 \<Longrightarrow>
   P (integrate_box h damp forces torques box) = P box"
  by (simp add: integrate_box_def Let_def smul_def zero_vec3_def plus_vec3_def)

theorem low_inv_mass_keeps_momentum_witness:
  "inv_mass ((resting_box (Vec3 0 0 0) (1 / 10000))\<lparr>P := Vec3 1 2 3\<rparr>) \<le> 1 / 10000 \<and>
   P (integrate_box 1 (9 / 100) [(''gravity'', Vec3 0 (- 9 / 10) 0)] []
       ((resting_box (Vec3 0 0 0) (1 / 10000))\<lparr>P := Vec3 1 2 3\<rparr>)) = Vec3 1 2 3"
  using low_inv_mass_keeps_momentum
    [of "(resting_box (Vec3 0 0 0) (1 / 10000))\<lparr>P := Vec3 1 2 3\<rparr>" 1 "9 / 100"
        "[(''gravity'', Vec3 0 (- 9 / 10) 0)]" "[]"]
  by (simp add: resting_box_def)

text \<open>Just above the threshold the forces do reach the momentum.\<close>

lemma momentum_changes_above_threshold:
  "P (integrate_box 1 (9 / 100) [(''gravity'', Vec3 0 (- 9 / 10) 0)] []
       ((resting_box (Vec3 0 0 0) 1)\<lparr>P := Vec3 1 2 3\<rparr>)) = Vec3 1 (11 / 10) 3"
  by (simp add: integrate_box_def Let_def resting_box_def vmuls_def vdivs_def smul_def
      zero_vec3_def plus_vec3_def)

text \<open>An orientation of length \<open>5\<close> comes out scaled to length \<open>1\<close>.\<close>

lemma orientation_example:
  "orientation (integrate_box (1 / 10) (9 / 100) [] []
      ((resting_box (Vec3 0 1 0) 1)\<lparr>orientation := Quat 3 0 4 0\<rparr>)) = Quat (3 / 5) 0 (4 / 5) 0"
  by (simp add: integrate_box_def Let_def resting_box_def normalize_def quat_length_def
      quat_add_def quat_muls_def quat_mul_def smul_quat_def quat_sv_def mat_vec_def mat_mul_def
      transpose3_def toMat3_def vmuls_def zero_vec3_def plus_vec3_def)

subsection \<open>The contact-resolution loop\<close>

lemma loop_events_Cons: "loop_events (e # evs) \<Longrightarrow> e = SolverClear"
  by (cases evs) simp_all

lemma loop_events_round:
  "loop_events new \<Longrightarrow> loop_events (snd (snd (loop_round co sim)) @ new)"
  by (cases new) (auto simp: loop_round_def Let_def dest: loop_events_Cons)

lemma loop_round_count:
  "int (count_list (snd (snd (loop_round co sim))) Solve) = fst (loop_round co sim)"
  "fst (loop_round co sim) = 0 \<or> fst (loop_round co sim) = 1"
  by (simp_all add: loop_round_def Let_def)

lemma solver_loop_round:
  "solver_loop co c sim evs =
     (if c = 30 then Some (c, sim, evs)
      else if had_collisions co (fst (snd (loop_round co sim)))
        then solver_loop co (c + fst (loop_round co sim)) (fst (snd (loop_round co sim)))
               (evs @ snd (snd (loop_round co sim)))
        else Some (c + fst (loop_round co sim), fst (snd (loop_round co sim)),
               evs @ snd (snd (loop_round co sim))))"
  by (subst solver_loop.simps) (simp add: loop_round_def Let_def)

lemma solver_loop_partial:
  assumes "solver_loop co c sim evs = Some r"
  shows "c \<le> 30 \<longrightarrow> c \<le> fst r \<and> fst r \<le> 30 \<and>
     (\<exists>new. snd (snd r) = evs @ new \<and> loop_events new \<and> int (count_list new Solve) = fst r - c)"
proof (rule solver_loop.raw_induct
    [where P = "\<lambda>co c sim evs r. c \<le> 30 \<longrightarrow> c \<le> fst r \<and> fst r \<le> 30 \<and>
       (\<exists>new. snd (snd r) = evs @ new \<and> loop_events new \<and>
          int (count_list new Solve) = fst r - c)", OF _ assms], goal_cases)
  case (1 f co c sim evs r)
  let ?rd = "loop_round co sim"
  let ?c1 = "c + fst ?rd" and ?s1 = "fst (snd ?rd)" and ?e1 = "evs @ snd (snd ?rd)"
  have body: "(if c = 30 then Some (c, sim, evs)
      else if had_collisions co ?s1 then f co ?c1 ?s1 ?e1 else Some (?c1, ?s1, ?e1)) = Some r"
    using 1(2) by (auto simp: loop_round_def Let_def split: if_splits)
  show ?case
  proof (intro impI)
    assume c30: "c \<le> 30"
    consider (cap) "c = 30" | (again) "c \<noteq> 30" "had_collisions co ?s1"
      | (leave) "c \<noteq> 30" "\<not> had_collisions co ?s1" by blast
    then show "c \<le> fst r \<and> fst r \<le> 30 \<and>
       (\<exists>new. snd (snd r) = evs @ new \<and> loop_events new \<and> int (count_list new Solve) = fst r - c)"
    proof cases
      case cap
      with body have "r = (c, sim, evs)" by simp
      with cap show ?thesis by simp
    next
      case again
      with body have "f co ?c1 ?s1 ?e1 = Some r" by simp
      from 1(1) [OF this] have
        "?c1 \<le> 30 \<longrightarrow> ?c1 \<le> fst r \<and> fst r \<le> 30 \<and>
           (\<exists>new. snd (snd r) = ?e1 @ new \<and> loop_events new \<and>
              int (count_list new Solve) = fst r - ?c1)" .
      moreover have "?c1 \<le> 30" using c30 again(1) loop_round_count(2) [of co sim] by auto
      ultimately obtain new where n: "?c1 \<le> fst r" "fst r \<le> 30" "snd (snd r) = ?e1 @ new"
        "loop_events new" "int (count_list new Solve) = fst r - ?c1"
        by blast
      have "snd (snd r) = evs @ (snd (snd ?rd) @ new)" using n(3) by simp
      moreover have "loop_events (snd (snd ?rd) @ new)" using n(4) by (rule loop_events_round)
      moreover have "int (count_list (snd (snd ?rd) @ new) Solve) = fst r - c"
        using n(5) loop_round_count(1) [of co sim] by simp
      moreover have "c \<le> fst r" using n(1) loop_round_count(2) [of co sim] by auto
      ultimately show ?thesis using n(2) by blast
    next
      case leave
      with body have r: "r = (?c1, ?s1, ?e1)" by simp
      have "loop_events (snd (snd ?rd) @ [])" by (rule loop_events_round) simp
      then have "loop_events (snd (snd ?rd))" by simp
      moreover have "int (count_list (snd (snd ?rd)) Solve) = ?c1 - c"
        using loop_round_count(1) [of co sim] by simp
      moreover have "c \<le> ?c1" "?c1 \<le> 30"
        using loop_round_count(2) [of co sim] c30 leave(1) by auto
      ultimately show ?thesis using r by simp
    qed
  qed
qed

lemma handle_collisions_unfold:
  obtains sim2 where
    "handle_collisions co sim =
      (case solver_loop co 0 sim2 [SphereCollisions] of
         None \<Rightarrow> None
       | Some (c, sim3, evs) \<Rightarrow> Some (sim3, evs @ (if c > 0 then [Cout_solved c] else [])))"
proof -
  obtain e1 sph where cs: "col_handle_collisions co (ext sim) (spheres sim) = (e1, sph)"
    by (cases "col_handle_collisions co (ext sim) (spheres sim)") auto
  define sim2 where "sim2 = (sim\<lparr>spheres := sph, ext := e1\<rparr>)
      \<lparr>boxes := map (\<lambda>box. box\<lparr>color := Vec3 1 (2 / 10) (11 / 100)\<rparr>)
        (boxes (sim\<lparr>spheres := sph, ext := e1\<rparr>))\<rparr>"
  have "handle_collisions co sim =
      (case solver_loop co 0 sim2 [SphereCollisions] of
         None \<Rightarrow> None
       | Some (c, sim3, evs) \<Rightarrow> Some (sim3, evs @ (if c > 0 then [Cout_solved c] else [])))"
    unfolding handle_collisions_def Let_def cs sim2_def by (simp only: prod.case)
  then show thesis by (rule that)
qed

lemma handle_collisions_passes:
  assumes "handle_collisions co sim = Some (sim', evs)"
  shows "\<exists>c new. 0 \<le> c \<and> c \<le> 30 \<and> loop_events new \<and> int (count_list new Solve) = c \<and>
     evs = [SphereCollisions] @ new @ (if c > 0 then [Cout_solved c] else [])"
proof -
  obtain sim2 where hc: "handle_collisions co sim =
      (case solver_loop co 0 sim2 [SphereCollisions] of
         None \<Rightarrow> None
       | Some (c, sim3, evs) \<Rightarrow> Some (sim3, evs @ (if c > 0 then [Cout_solved c] else [])))"
    by (rule handle_collisions_unfold)
  obtain r where slr: "solver_loop co 0 sim2 [SphereCollisions] = Some r"
    using assms hc by (cases "solver_loop co 0 sim2 [SphereCollisions]") simp_all
  obtain c sim3 evs' where r: "r = (c, sim3, evs')"
    by (cases r) auto
  have ev: "evs = evs' @ (if c > 0 then [Cout_solved c] else [])"
    using assms by (simp add: hc slr r)
  have "(0::int) \<le> 30" by simp
  with solver_loop_partial [OF slr] have
    p: "0 \<le> c \<and> c \<le> 30 \<and> (\<exists>new. evs' = [SphereCollisions] @ new \<and> loop_events new \<and>
          int (count_list new Solve) = c - 0)"
    by (simp add: r)
  then obtain new where n: "evs' = [SphereCollisions] @ new" "loop_events new"
    "int (count_list new Solve) = c"
    by auto
  have "evs = [SphereCollisions] @ new @ (if c > 0 then [Cout_solved c] else [])"
    by (simp add: ev n(1))
  with p n(2,3) show ?thesis by blast
qed

text \<open>The example collaborators: one query with contacts, then none.\<close>

lemma counting_one:
  "ext sim = (Suc 0, b) \<Longrightarrow>
   solver_loop counting_solver 0 sim evs
     = Some (1, sim\<lparr>ext := (0, False)\<rparr>,
         evs @ [SolverClear, TestCollision, Solve, SolverClear, TestCollision])"
  apply (subst solver_loop.simps)
  apply (simp add: counting_solver_def Let_def)
  apply (subst solver_loop.simps)
  apply (simp add: Let_def)
  done

lemma counting_handle_collisions:
  "handle_collisions counting_solver (Simulator_new (Suc 0, False))
     = Some ((Simulator_new (Suc 0, False))\<lparr>ext := (0, False)\<rparr>,
         [SphereCollisions, SolverClear, TestCollision, Solve, SolverClear, TestCollision,
          Cout_solved 1])"
proof -
  have c: "col_handle_collisions counting_solver e sph = (e, sph)" for e sph
    by (simp add: counting_solver_def)
  show ?thesis
    unfolding handle_collisions_def Let_def c
    by (simp add: counting_one [where b = False] Simulator_new_def)
qed

lemma counting_frame:
  "frame counting_solver 1 (Simulator_new (Suc 0, False))
     = Some ((Simulator_new (Suc 0, False))
               \<lparr>ext := (0, False), integrate_init := False, last_time := 1\<rparr>,
         [Draw, SphereCollisions, SolverClear, TestCollision, Solve, SolverClear, TestCollision,
          Cout_solved 1, Call_integrate_spheres 0, Call_integrate_boxes 0, PrintFps])"
proof -
  have d: "draw counting_solver (Simulator_new (Suc 0, False)) = Simulator_new (Suc 0, False)"
    by (simp add: counting_solver_def)
  show ?thesis
    by (simp add: frame_def d counting_handle_collisions)
       (simp add: integrate_def Let_def Simulator_new_def integrate_spheres_def
          integrate_boxes_def)
qed

lemma solver_rounds_round:
  "solver_rounds co (Suc n) c sim evs =
     (if c = 30 then (True, c, sim, evs)
      else if had_collisions co (fst (snd (loop_round co sim)))
        then solver_rounds co n (c + fst (loop_round co sim)) (fst (snd (loop_round co sim)))
               (evs @ snd (snd (loop_round co sim)))
        else (True, c + fst (loop_round co sim), fst (snd (loop_round co sim)),
               evs @ snd (snd (loop_round co sim))))"
  by (simp add: loop_round_def Let_def)



lemma solver_loop_rounds:
  assumes "solver_loop co c sim evs = Some r"
  shows "\<exists>n. solver_rounds co n c sim evs = (True, r)"
proof (rule solver_loop.raw_induct
    [where P = "\<lambda>co c sim evs r. \<exists>n. solver_rounds co n c sim evs = (True, r)", OF _ assms],
    goal_cases)
  case (1 f co c sim evs r)
  let ?rd = "loop_round co sim"
  let ?c1 = "c + fst ?rd" and ?s1 = "fst (snd ?rd)" and ?e1 = "evs @ snd (snd ?rd)"
  have body: "(if c = 30 then Some (c, sim, evs)
      else if had_collisions co ?s1 then f co ?c1 ?s1 ?e1 else Some (?c1, ?s1, ?e1)) = Some r"
    using 1(2) by (auto simp: loop_round_def Let_def split: if_splits)
  consider (cap) "c = 30" | (again) "c \<noteq> 30" "had_collisions co ?s1"
    | (leave) "c \<noteq> 30" "\<not> had_collisions co ?s1" by blast
  then show ?case
  proof cases
    case cap
    with body have "r = (c, sim, evs)" by simp
    with cap have "solver_rounds co (Suc 0) c sim evs = (True, r)"
      by (simp add: solver_rounds_round del: solver_rounds.simps(2))
    then show ?thesis by blast
  next
    case again
    with body have "f co ?c1 ?s1 ?e1 = Some r" by simp
    from 1(1) [OF this] obtain n where "solver_rounds co n ?c1 ?s1 ?e1 = (True, r)" ..
    with again have "solver_rounds co (Suc n) c sim evs = (True, r)"
      by (simp add: solver_rounds_round del: solver_rounds.simps(2))
    then show ?thesis by blast
  next
    case leave
    with body have "r = (?c1, ?s1, ?e1)" by simp
    with leave have "solver_rounds co (Suc 0) c sim evs = (True, r)"
      by (simp add: solver_rounds_round del: solver_rounds.simps(2))
    then show ?thesis by blast
  qed
qed


text \<open>
  The loop need not be left at all: with \<open>stuck_solver\<close> no number of rounds leaves it,
  and \<open>solver_loop\<close> has no result.
\<close>

lemma stuck_rounds: "fst (solver_rounds stuck_solver n 0 sim evs) = False"
  by (induction n arbitrary: sim evs) (simp_all add: stuck_solver_def Let_def)

lemma stuck_never_returns: "solver_loop stuck_solver 0 sim evs = None"
proof (cases "solver_loop stuck_solver 0 sim evs")
  case None
  then show ?thesis .
next
  case (Some r)
  then obtain n where "solver_rounds stuck_solver n 0 sim evs = (True, r)"
    using solver_loop_rounds by blast
  with stuck_rounds [of n sim evs] show ?thesis by simp
qed





text \<open>
  The cap is reached: with collaborators whose queries keep finding contacts, the loop
  is left by the \<open>break\<close> after exactly 30 passes, and \<open>Solved after 30 iterations\<close>
  is written.
\<close>

lemma counting_cap:
  "k = nat (30 - c) \<Longrightarrow> c \<le> 30 \<Longrightarrow> ext sim = (n, b) \<Longrightarrow> k \<le> n \<Longrightarrow>
   \<exists>sim' evs'. solver_loop counting_solver c sim evs = Some (30, sim', evs')"
proof (induction k arbitrary: c sim evs n b)
  case 0
  then have "c = 30" by simp
  then show ?case by (simp add: solver_loop_round)
next
  case (Suc k)
  then have c: "c < 30" and n: "0 < n" by simp_all
  have rd: "loop_round counting_solver sim
      = (1, sim\<lparr>ext := (n - 1, True)\<rparr>, [SolverClear, TestCollision, Solve])"
    using Suc.prems(3) n by (simp add: loop_round_def counting_solver_def Let_def)
  have had: "had_collisions counting_solver (sim\<lparr>ext := (n - 1, True)\<rparr>)"
    by (simp add: counting_solver_def)
  have "\<exists>sim' evs'. solver_loop counting_solver (c + 1) (sim\<lparr>ext := (n - 1, True)\<rparr>)
      (evs @ [SolverClear, TestCollision, Solve]) = Some (30, sim', evs')"
    using Suc.prems c n by (intro Suc.IH [where n = "n - 1" and b = True]) simp_all
  then show ?case
    using c had by (subst solver_loop_round) (simp add: rd)
qed

lemma counting_cap_reached:
  "\<exists>sim' evs. handle_collisions counting_solver (Simulator_new (40, False)) = Some (sim', evs) \<and>
     count_list evs Solve = 30 \<and> last evs = Cout_solved 30"
proof -
  obtain sim' evs' where
    l: "solver_loop counting_solver 0 (Simulator_new (40, False)) [SphereCollisions]
          = Some (30, sim', evs')"
    using counting_cap [of 30 0 "Simulator_new (40, False)" 40 False "[SphereCollisions]"]
    by (auto simp: Simulator_new_def)
  have c: "col_handle_collisions counting_solver e sph = (e, sph)" for e sph
    by (simp add: counting_solver_def)
  have h: "handle_collisions counting_solver (Simulator_new (40, False))
      = Some (sim', evs' @ [Cout_solved 30])"
    unfolding handle_collisions_def Let_def c
    by (simp add: Simulator_new_def l [unfolded Simulator_new_def])
  have "int (count_list evs' Solve) = 30"
    using solver_loop_partial [OF l] by auto
  then show ?thesis using h by simp
qed

subsection \<open>The order of events in a frame\<close>

lemma loop_events_no_integration:
  "loop_events evs \<Longrightarrow> list_all (\<lambda>e. \<not> is_integration e) evs"
proof (induction evs rule: loop_events.induct)
  case 1
  show ?case by simp
next
  case (2 e)
  then show ?case by simp
next
  case (3 e1 e2 evs)
  then have h: "e1 = SolverClear" "e2 = TestCollision" by simp_all
  have "list_all (\<lambda>e. \<not> is_integration e) evs"
  proof (cases "evs \<noteq> [] \<and> hd evs = Solve")
    case True
    then have "loop_events (tl evs)" using "3.prems" by simp
    with True "3.IH"(1) have "list_all (\<lambda>e. \<not> is_integration e) (tl evs)" by simp
    then have "list_all (\<lambda>e. \<not> is_integration e) (Solve # tl evs)"
      by (simp add: is_integration_def)
    moreover have "Solve # tl evs = evs" using True by (cases evs) simp_all
    ultimately show ?thesis by simp
  next
    case False
    then have "loop_events evs" using "3.prems" by auto
    with False "3.IH"(2) show ?thesis by simp
  qed
  then show ?case by (simp add: h is_integration_def)
qed

lemma integrate_sphere_events:
  "list_all is_integration (snd (snd (integrate_sphere h forces damp i st sphere)))"
  by (simp add: integrate_sphere_def Let_def is_integration_def)

lemma integrate_spheres_loop_events:
  "list_all is_integration (snd (snd (integrate_spheres_loop h forces damp i st sphs)))"
proof (induction sphs arbitrary: i st)
  case Nil
  show ?case by simp
next
  case (Cons sphere rest)
  obtain sphere' st' ev where a: "integrate_sphere h forces damp i st sphere = (sphere', st', ev)"
    by (cases "integrate_sphere h forces damp i st sphere") auto
  obtain rest' st'' evs where
    b: "integrate_spheres_loop h forces damp (Suc i) st' rest = (rest', st'', evs)"
    by (cases "integrate_spheres_loop h forces damp (Suc i) st' rest") auto
  have "list_all is_integration ev"
    using integrate_sphere_events [of h forces damp i st sphere] a by simp
  moreover have "list_all is_integration evs"
    using Cons.IH [of "Suc i" st'] b by simp
  ultimately show ?case by (simp add: a b)
qed

lemma set_transforms_events:
  "set_transforms bxs bds = Some (bds', evs) \<Longrightarrow> list_all is_integration evs"
proof (induction bds arbitrary: bds' evs)
  case Nil
  then show ?case by simp
next
  case (Cons bp bds)
  from Cons.prems obtain rest' evs0 where
    r: "set_transforms bxs bds = Some (rest', evs0)"
    and e: "evs = SetTransform (body_id (snd bp)) (center (bxs ! userData (snd bp)))
              (orientation (bxs ! userData (snd bp))) # evs0"
    by (auto simp: Let_def split: if_splits option.splits)
  from Cons.IH [OF r] show ?case by (simp add: e is_integration_def)
qed

lemma integrate_events:
  assumes "integrate curr_time sim = Some (sim', evs)"
  shows "evs \<noteq> [] \<and> list_all is_integration evs"
proof -
  define sim1 where "sim1 = (if integrate_init sim
      then sim\<lparr>integrate_init := False, last_time := curr_time\<rparr> else sim)"
  define sim2 where "sim2 = sim1\<lparr>last_time := curr_time\<rparr>"
  define h where "h = base_h sim2 * (13333 / 100) * (curr_time - last_time sim1)"
  obtain sim3 evs1 where s: "integrate_spheres h sim2 = (sim3, evs1)"
    by (cases "integrate_spheres h sim2") auto
  have i: "integrate curr_time sim =
       (case integrate_boxes h sim3 of
          None \<Rightarrow> None
        | Some (sim4, evs') \<Rightarrow>
            Some (sim4, [Call_integrate_spheres h] @ evs1 @ [Call_integrate_boxes h] @ evs'))"
    using s unfolding integrate_def Let_def h_def sim2_def sim1_def
    by (simp only: prod.case)
  have e1: "list_all is_integration evs1"
    using integrate_spheres_loop_events
      [of h "g_forces sim2" "damping sim2" 0 "(lowSphere sim2, cnt sim2)" "spheres sim2"] s
    by (auto simp: integrate_spheres_def split: prod.splits)
  obtain r where ib: "integrate_boxes h sim3 = Some r"
    using assms i by (cases "integrate_boxes h sim3") simp_all
  obtain sim4 evs2 where r: "r = (sim4, evs2)" by (cases r) auto
  have e2: "list_all is_integration evs2"
    using ib r set_transforms_events
    by (auto simp: integrate_boxes_def Let_def split: option.splits)
  have "evs = [Call_integrate_spheres h] @ evs1 @ [Call_integrate_boxes h] @ evs2"
    using assms by (simp add: i ib r)
  with e1 e2 show ?thesis by (simp add: is_integration_def)
qed

lemma precedes_append:
  "list_all (\<lambda>x. \<not> q x) a \<Longrightarrow> list_all (\<lambda>x. \<not> p x) b \<Longrightarrow> precedes p q (a @ b)"
proof (induction a)
  case Nil
  then show ?case by (induction b) simp_all
next
  case (Cons e a)
  then show ?case by simp
qed

lemma frame_unfold:
  assumes "frame co curr_time sim = Some (sim', tr)"
  obtains sim1 evs1 evs2 where
    "handle_collisions co (draw co sim) = Some (sim1, evs1)"
    "integrate curr_time sim1 = Some (sim', evs2)"
    "tr = [Draw] @ evs1 @ evs2 @ [PrintFps]"
proof -
  obtain r1 where h: "handle_collisions co (draw co sim) = Some r1"
    using assms by (cases "handle_collisions co (draw co sim)") (simp_all add: frame_def)
  obtain sim1 evs1 where r1: "r1 = (sim1, evs1)" by (cases r1) auto
  obtain r2 where i: "integrate curr_time sim1 = Some r2"
    using assms by (cases "integrate curr_time sim1") (simp_all add: frame_def h r1)
  obtain sim2 evs2 where r2: "r2 = (sim2, evs2)" by (cases r2) auto
  have "sim2 = sim'" "tr = [Draw] @ evs1 @ evs2 @ [PrintFps]"
    using assms by (simp_all add: frame_def h r1 i r2)
  with h r1 i r2 show thesis using that by simp
qed

text \<open>
  C8, as stated: in every frame all collision detection completes before contact
  resolution is applied. The loop of \<open>handle_collisions\<close> queries again after every
  pass: in the frame below the second \<open>TestCollision\<close> follows the \<open>Solve\<close>.
\<close>

theorem detection_after_resolution_counterexample:
  "frame counting_solver 1 (Simulator_new (Suc 0, False))
     = Some ((Simulator_new (Suc 0, False))
               \<lparr>ext := (0, False), integrate_init := False, last_time := 1\<rparr>,
         [Draw, SphereCollisions, SolverClear, TestCollision, Solve, SolverClear, TestCollision,
          Cout_solved 1, Call_integrate_spheres 0, Call_integrate_boxes 0, PrintFps]) \<and>
   \<not> precedes is_detection is_resolution
       [Draw, SphereCollisions, SolverClear, TestCollision, Solve, SolverClear, TestCollision,
        Cout_solved 1, Call_integrate_spheres 0, Call_integrate_boxes 0, PrintFps]"
  by (simp add: counting_frame is_detection_def is_resolution_def)

text \<open>
  C8, amended: every frame that completes writes \<open>Draw\<close>, the particle pass, then rounds
  of the box loop, each a collision query followed by at most one resolution pass (so
  queries and passes alternate, and every pass follows the query of its round), and then
  the rest of the frame, which holds the integration and no detection or resolution
  event; no integration event occurs before the rest. Hence every detection event and
  every resolution event of a frame precedes every integration event of that frame.
\<close>

theorem frame_detection_resolution_before_integration:
  "frame co curr_time sim = Some (sim', tr) \<Longrightarrow>
   (\<exists>loop_evs rest.
      tr = [Draw, SphereCollisions] @ loop_evs @ rest \<and>
      loop_events loop_evs \<and>
      list_all (\<lambda>e. \<not> is_integration e) ([Draw, SphereCollisions] @ loop_evs) \<and>
      list_all (\<lambda>e. \<not> is_detection e \<and> \<not> is_resolution e) rest \<and>
      list_ex is_integration rest) \<and>
   precedes is_detection is_integration tr \<and>
   precedes is_resolution is_integration tr"
proof -
  assume f: "frame co curr_time sim = Some (sim', tr)"
  obtain sim1 evs1 evs2 where
    h: "handle_collisions co (draw co sim) = Some (sim1, evs1)"
    and i: "integrate curr_time sim1 = Some (sim', evs2)"
    and tr: "tr = [Draw] @ evs1 @ evs2 @ [PrintFps]"
    using f by (rule frame_unfold)
  from handle_collisions_passes [OF h] obtain k new where
    new: "loop_events new"
    and e1: "evs1 = [SphereCollisions] @ new @ (if k > 0 then [Cout_solved k] else [])"
    by blast
  define rest where "rest = (if k > 0 then [Cout_solved k] else []) @ evs2 @ [PrintFps]"
  have ie: "evs2 \<noteq> []" "list_all is_integration evs2"
    using integrate_events [OF i] by simp_all
  have shape: "tr = [Draw, SphereCollisions] @ new @ rest"
    by (simp add: tr e1 rest_def)
  have pre: "list_all (\<lambda>e. \<not> is_integration e) ([Draw, SphereCollisions] @ new)"
    using loop_events_no_integration [OF new] by (simp add: is_integration_def)
  have "list_all (\<lambda>e. \<not> is_detection e \<and> \<not> is_resolution e) evs2"
    using ie(2) by (induction evs2)
      (auto simp: is_integration_def is_detection_def is_resolution_def split: event.splits)
  then have post: "list_all (\<lambda>e. \<not> is_detection e \<and> \<not> is_resolution e) rest"
    by (simp add: rest_def is_detection_def is_resolution_def)
  have ex: "list_ex is_integration rest"
    using ie by (cases evs2) (simp_all add: rest_def)
  have "list_all (\<lambda>e. \<not> is_detection e) rest" "list_all (\<lambda>e. \<not> is_resolution e) rest"
    using post by (simp_all add: list_all_iff)
  then have "precedes is_detection is_integration tr" "precedes is_resolution is_integration tr"
    unfolding shape append_assoc [symmetric] using pre by (simp_all only: precedes_append)
  with shape new pre post ex show ?thesis by blast
qed

theorem frame_detection_resolution_before_integration_witness:
  "frame counting_solver 1 (Simulator_new (Suc 0, False))
     = Some ((Simulator_new (Suc 0, False))
               \<lparr>ext := (0, False), integrate_init := False, last_time := 1\<rparr>,
         [Draw, SphereCollisions, SolverClear, TestCollision, Solve, SolverClear, TestCollision,
          Cout_solved 1, Call_integrate_spheres 0, Call_integrate_boxes 0, PrintFps]) \<and>
   precedes is_detection is_integration
     [Draw, SphereCollisions, SolverClear, TestCollision, Solve, SolverClear, TestCollision,
      Cout_solved 1, Call_integrate_spheres 0, Call_integrate_boxes 0, PrintFps] \<and>
   precedes is_resolution is_integration
     [Draw, SphereCollisions, SolverClear, TestCollision, Solve, SolverClear, TestCollision,
      Cout_solved 1, Call_integrate_spheres 0, Call_integrate_boxes 0, PrintFps]"
  using counting_frame frame_detection_resolution_before_integration [OF counting_frame]
  by blast

subsection \<open>Boxes of inverse mass \<open>0\<close> through the frames of a run\<close>




















subsection \<open>Creation and destruction of the collision bodies\<close>

lemma map_of_created_fresh:
  "map_of (map (created_body new_body bxs) [0..<k]) k = None"
  by (simp add: map_of_eq_None_iff image_iff created_body_def)

lemma init_bodies_prefix:
  "bodies sim = [] \<Longrightarrow> k \<le> length (boxes sim) \<Longrightarrow>
   boxes (fst (fold (init_body new_body) [0..<k] (sim, []))) = boxes sim \<and>
   bodies (fst (fold (init_body new_body) [0..<k] (sim, [])))
     = map (created_body new_body (boxes sim)) [0..<k] \<and>
   filter (\<lambda>e. case e of CreateCollisionBody _ _ _ \<Rightarrow> True | _ \<Rightarrow> False)
       (snd (fold (init_body new_body) [0..<k] (sim, [])))
     = map (\<lambda>i. CreateCollisionBody (new_body i) (center (boxes sim ! i)) (orientation (boxes sim ! i)))
         [0..<k]"
proof (induction k)
  case 0
  then show ?case by simp
next
  case (Suc k)
  define st where "st = fold (init_body new_body) [0..<k] (sim, [])"
  have IH: "boxes (fst st) = boxes sim"
    "bodies (fst st) = map (created_body new_body (boxes sim)) [0..<k]"
    "filter (\<lambda>e. case e of CreateCollisionBody _ _ _ \<Rightarrow> True | _ \<Rightarrow> False) (snd st)
     = map (\<lambda>i. CreateCollisionBody (new_body i) (center (boxes sim ! i)) (orientation (boxes sim ! i)))
         [0..<k]"
    using Suc by (simp_all add: st_def)
  have step: "fold (init_body new_body) [0..<Suc k] (sim, []) = init_body new_body k st"
    by (simp add: st_def)
  have fresh: "map_of (bodies (fst st)) k = None"
    by (simp only: IH map_of_created_fresh)
  show ?case
    unfolding step
    by (simp add: init_body_def Let_def emplace_def fresh IH map_of_created_fresh)
       (simp add: created_body_def)
qed

text \<open>
  C9. Starting from the empty \<open>bodies_\<close> the constructor leaves, the last loop of
  \<open>init\<close> creates one collision body per box, and the destructor of the state it leaves
  calls \<open>destroyCollisionBody\<close> for exactly these bodies, one call each, and after all
  of them calls \<open>destroyPhysicsWorld\<close>, as its last action.
\<close>

theorem bodies_destroyed_before_world:
  "bodies sim = [] \<Longrightarrow>
   filter (\<lambda>e. case e of CreateCollisionBody _ _ _ \<Rightarrow> True | _ \<Rightarrow> False)
       (snd (init_bodies new_body sim))
     = map (\<lambda>i. CreateCollisionBody (new_body i) (center (boxes sim ! i)) (orientation (boxes sim ! i)))
         [0..<length (boxes sim)] \<and>
   Simulator_destructor (fst (init_bodies new_body sim))
     = map (\<lambda>i. DestroyCollisionBody (new_body i)) [0..<length (boxes sim)] @ [DestroyPhysicsWorld]"
  using init_bodies_prefix [of sim "length (boxes sim)" new_body]
  by (simp add: init_bodies_def Simulator_destructor_def created_body_def comp_def)

theorem bodies_destroyed_before_world_witness:
  "bodies ((Simulator_new ())\<lparr>boxes := [resting_box (Vec3 0 1 0) 1, resting_box (Vec3 0 (- 5) 0) 0]\<rparr>)
     = [] \<and>
   Simulator_destructor (fst (init_bodies (\<lambda>i. 10 + i)
       ((Simulator_new ())\<lparr>boxes := [resting_box (Vec3 0 1 0) 1, resting_box (Vec3 0 (- 5) 0) 0]\<rparr>)))
     = [DestroyCollisionBody 10, DestroyCollisionBody 11, DestroyPhysicsWorld]"
  using bodies_destroyed_before_world
    [of "(Simulator_new ())\<lparr>boxes := [resting_box (Vec3 0 1 0) 1, resting_box (Vec3 0 (- 5) 0) 0]\<rparr>"
        "\<lambda>i. 10 + i"]
  by (simp add: Simulator_new_def upt_rec)

text \<open>All the calls \<open>init\<close> makes for these two boxes.\<close>

lemma init_example:
  "snd (init_bodies (\<lambda>i. 10 + i)
       ((Simulator_new ())\<lparr>boxes := [resting_box (Vec3 0 1 0) 1, resting_box (Vec3 0 (- 5) 0) 0]\<rparr>))
     = [CreateCollisionBody 10 (Vec3 0 1 0) (Quat 1 0 0 0), CreateBoxShape (Vec3 (1 / 2) (1 / 2) (1 / 2)),
        AddCollider 10,
        CreateCollisionBody 11 (Vec3 0 (- 5) 0) (Quat 1 0 0 0), CreateBoxShape (Vec3 (1 / 2) (1 / 2) (1 / 2)),
        AddCollider 11]"
  by (simp add: init_bodies_def init_body_def Simulator_new_def resting_box_def emplace_def
      Let_def upt_rec)

end
